theory Spec2Isabelle
  imports Complex_Main
begin

section \<open>Exceptions\<close>

text \<open>
  Every exception class that the modelled code raises, catches or lets through is a
  constructor. \<open>RuntimeError\<close>, \<open>TypeError\<close> and \<open>MyaException\<close> carry the message that
  the source gives them. \<open>MyaException\<close> is named by the handler of the construction loop
  (\<open>except mya.MyaException\<close>) and is not declared in \<open>modules/mya.py\<close>; it is taken here
  as a class of its own. \<open>ValueError\<close>, \<open>OutOfBoundsDatetime\<close> and \<open>ZeroDivisionError\<close>
  are raised by the date library, \<open>JSONDecodeError\<close> by the response decoder, and
  \<open>OtherError\<close> stands for any other class a collaborator may raise.
\<close>

datatype error =
    RuntimeError string
  | TypeError string
  | MyaException string
  | ValueError
  | OutOfBoundsDatetime
  | ZeroDivisionError
  | JSONDecodeError string
  | OtherError string

section \<open>Dates, time zones and intervals (the library calls of \<open>modules/mya.py\<close>)\<close>

text \<open>
  A naive timestamp is a calendar date and a wall-clock time in whole seconds, which is
  what the documented date format \<open>yyyy-mm-dd hh:mm:ss\<close> can express.
\<close>

record timestamp =
  year :: int
  month :: int
  day :: int
  hour :: int
  minute :: int
  second :: int

text \<open>Days between 1970-01-01 and a date of the proleptic Gregorian calendar.\<close>

definition days_from_civil :: "int \<Rightarrow> int \<Rightarrow> int \<Rightarrow> int" where
  "days_from_civil y m d =
     (let y' = (if m \<le> 2 then y - 1 else y);
          era = y' div 400;
          yoe = y' - era * 400;
          mp = (m + 9) mod 12;
          doy = (153 * mp + 2) div 5 + d - 1;
          doe = yoe * 365 + yoe div 4 - yoe div 100 + doy
      in era * 146097 + doe - 719468)"

text \<open>Seconds between 1970-01-01 00:00:00 and a timestamp, read without a zone.\<close>

definition epoch_seconds :: "timestamp \<Rightarrow> int" where
  "epoch_seconds t =
     days_from_civil (year t) (month t) (day t) * 86400
       + hour t * 3600 + minute t * 60 + second t"

text \<open>Day of the week, 0 for Sunday: 1970-01-01 was a Thursday.\<close>

definition weekday :: "int \<Rightarrow> int \<Rightarrow> int \<Rightarrow> int" where
  "weekday y m d = (days_from_civil y m d + 4) mod 7"

definition is_leap :: "int \<Rightarrow> bool" where
  "is_leap y = (y mod 4 = 0 \<and> (y mod 100 \<noteq> 0 \<or> y mod 400 = 0))"

definition days_in_month :: "int \<Rightarrow> int \<Rightarrow> int" where
  "days_in_month y m =
     (if m = 2 then (if is_leap y then 29 else 28)
      else if m = 4 \<or> m = 6 \<or> m = 9 \<or> m = 11 then 30 else 31)"

subsection \<open>Parsing\<close>

definition digit_val :: "char \<Rightarrow> int option" where
  "digit_val c =
     (let n = (of_char c :: nat)
      in if 48 \<le> n \<and> n \<le> 57 then Some (int n - 48) else None)"

fun digits_val :: "int \<Rightarrow> string \<Rightarrow> int option" where
  "digits_val acc [] = Some acc"
| "digits_val acc (c # cs) =
     (case digit_val c of None \<Rightarrow> None | Some v \<Rightarrow> digits_val (acc * 10 + v) cs)"

definition number :: "string \<Rightarrow> int option" where
  "number s = (if s = [] then None else digits_val 0 s)"

text \<open>
  A date argument is a string or an already built timestamp: \<open>number_of_steps\<close> hands
  \<open>steps_between\<close> the timestamps that the constructor stored, other callers hand it
  strings.
\<close>

datatype date_arg = Str string | Ts timestamp

text \<open>
  \<open>pandas.to_datetime\<close> on the documented form \<open>yyyy-mm-dd hh:mm:ss\<close> (19 characters,
  zero padded). A field out of range is a \<open>ValueError\<close>; a date whose nanosecond count
  does not fit 64 bits is \<open>OutOfBoundsDatetime\<close>. The library reads many more spellings of
  a date; they are outside this table and are reported here as \<open>ValueError\<close>. A timestamp
  comes back as it is.
\<close>

definition in_bounds :: "timestamp \<Rightarrow> bool" where
  "in_bounds t =
     (- (2 ^ 63) < epoch_seconds t * 1000000000 \<and> epoch_seconds t * 1000000000 < 2 ^ 63)"

definition parse_datetime :: "string \<Rightarrow> error + timestamp" where
  "parse_datetime s =
     (if length s = 19 \<and> s ! 4 = CHR ''-'' \<and> s ! 7 = CHR ''-'' \<and> s ! 10 = CHR '' ''
         \<and> s ! 13 = CHR '':'' \<and> s ! 16 = CHR '':''
      then
        (case (number (take 4 s), number (take 2 (drop 5 s)), number (take 2 (drop 8 s)),
               number (take 2 (drop 11 s)), number (take 2 (drop 14 s)),
               number (take 2 (drop 17 s))) of
           (Some y, Some mo, Some d, Some h, Some mi, Some sec) \<Rightarrow>
             (if 1 \<le> y \<and> 1 \<le> mo \<and> mo \<le> 12 \<and> 1 \<le> d \<and> d \<le> days_in_month y mo
                 \<and> h < 24 \<and> mi < 60 \<and> sec < 60
              then
                (let t = \<lparr>year = y, month = mo, day = d, hour = h, minute = mi, second = sec\<rparr>
                 in if in_bounds t then Inr t else Inl OutOfBoundsDatetime)
              else Inl ValueError)
         | _ \<Rightarrow> Inl ValueError)
      else Inl ValueError)"

fun to_datetime :: "date_arg \<Rightarrow> error + timestamp" where
  "to_datetime (Str s) = parse_datetime s"
| "to_datetime (Ts t) = Inr t"

text \<open>
  \<open>pandas.to_timedelta\<close> on a count followed by a unit, in nanoseconds. Only the units
  of this table are read; anything else is a \<open>ValueError\<close>.
\<close>

definition unit_nanoseconds :: "string \<Rightarrow> int option" where
  "unit_nanoseconds u =
     (if u = ''W'' then Some 604800000000000
      else if u = ''D'' \<or> u = ''d'' \<or> u = ''day'' \<or> u = ''days'' then Some 86400000000000
      else if u = ''h'' \<or> u = ''hr'' \<or> u = ''hour'' \<or> u = ''hours'' then Some 3600000000000
      else if u = ''m'' \<or> u = ''min'' \<or> u = ''minute'' \<or> u = ''minutes'' then Some 60000000000
      else if u = ''s'' \<or> u = ''sec'' \<or> u = ''second'' \<or> u = ''seconds'' then Some 1000000000
      else if u = ''ms'' then Some 1000000
      else if u = ''us'' then Some 1000
      else if u = ''ns'' then Some 1
      else None)"

definition to_timedelta :: "string \<Rightarrow> error + int" where
  "to_timedelta s =
     (case (number (takeWhile (\<lambda>c. digit_val c \<noteq> None) s),
            unit_nanoseconds (dropWhile (\<lambda>c. digit_val c \<noteq> None) s)) of
        (Some n, Some u) \<Rightarrow> Inr (n * u)
      | _ \<Rightarrow> Inl ValueError)"

subsection \<open>The zone\<close>

text \<open>
  A zone gives the offset from UTC, in seconds, that holds at a wall-clock time. The
  module constant \<open>tz = gettz('America/New_York')\<close> is read from the zone database, which
  is not part of the repository. \<open>tz_new_york\<close> holds the rules of the United States in
  force from 1987 on: daylight time from the first Sunday of April to the last Sunday of
  October until 2006, and from the second Sunday of March to the first Sunday of
  November since 2007, both changes at 02:00 on the wall clock. An hour that the clock
  shows twice counts as daylight time and one that it skips counts as daylight time too,
  as the zone library resolves them. Years before 1987 follow other rules and are read
  with the rule of 1987.
\<close>

type_synonym tzinfo = "timestamp \<Rightarrow> int"

definition first_sunday_from :: "int \<Rightarrow> int \<Rightarrow> int \<Rightarrow> int" where
  "first_sunday_from y m d = d + (7 - weekday y m d) mod 7"

definition wall_clock :: "timestamp \<Rightarrow> int \<times> int \<times> int" where
  "wall_clock t = (month t, day t, hour t)"

definition wall_less :: "int \<times> int \<times> int \<Rightarrow> int \<times> int \<times> int \<Rightarrow> bool" where
  "wall_less a b =
     (case (a, b) of ((m1, d1, h1), (m2, d2, h2)) \<Rightarrow>
        m1 < m2 \<or> (m1 = m2 \<and> (d1 < d2 \<or> (d1 = d2 \<and> h1 < h2))))"

definition dst_begin :: "int \<Rightarrow> int \<times> int \<times> int" where
  "dst_begin y =
     (if 2007 \<le> y then (3, first_sunday_from y 3 8, 2) else (4, first_sunday_from y 4 1, 2))"

definition dst_end :: "int \<Rightarrow> int \<times> int \<times> int" where
  "dst_end y =
     (if 2007 \<le> y then (11, first_sunday_from y 11 1, 2) else (10, first_sunday_from y 10 25, 2))"

definition tz_new_york :: tzinfo where
  "tz_new_york t =
     (if \<not> wall_less (wall_clock t) (dst_begin (year t))
         \<and> wall_less (wall_clock t) (dst_end (year t))
      then - 14400 else - 18000)"

text \<open>
  \<open>pandas.Timestamp(t, tzinfo=tz)\<close> keeps the wall-clock reading of \<open>t\<close> and attaches the
  zone; the value it stands for is the instant in UTC, in nanoseconds since 1970.
\<close>

definition aware :: "tzinfo \<Rightarrow> timestamp \<Rightarrow> int" where
  "aware z t = (epoch_seconds t - z t) * 1000000000"

section \<open>Python values\<close>

text \<open>
  The values that the sampler stores and compares without knowing their type: what the
  archiver's reply holds under \<open>data\<close>, and what a caller hands to \<open>set_data\<close>. \<open>'r\<close> is the
  type of one sample record. \<open>truthy\<close> is the truth value that \<open>not\<close> and \<open>if\<close> read off a
  value, and \<open>is_list\<close> is \<open>isinstance(val, list)\<close>.
\<close>

datatype 'r pyval = PyNone | PyList "'r list" | PyStr string | PyInt int | PyBool bool

fun truthy :: "'r pyval \<Rightarrow> bool" where
  "truthy PyNone = False"
| "truthy (PyList xs) = (xs \<noteq> [])"
| "truthy (PyStr s) = (s \<noteq> [])"
| "truthy (PyInt i) = (i \<noteq> 0)"
| "truthy (PyBool b) = b"

fun is_list :: "'r pyval \<Rightarrow> bool" where
  "is_list (PyList xs) = True"
| "is_list v = False"

text \<open>The scalars of a configuration file and of a query string.\<close>

datatype scalar = SStr string | SInt int



section \<open>The module \<open>modules/mya.py\<close>\<close>

text \<open>
  The attributes of the module and of the class \<open>Sampler\<close> that the code reads or that
  the start-up code assigns. \<open>deployment\<close> and \<open>throttle\<close> are the module attributes that
  \<open>initialize_modules\<close> creates; \<open>Sampler_url\<close> and \<open>Sampler_deployment\<close> are the class
  attributes.
\<close>

record mya_module =
  url :: string
  tz :: tzinfo
  deployment :: "scalar option"
  throttle :: "scalar option"
  Sampler_url :: string
  Sampler_deployment :: string

definition mya :: mya_module where
  "mya = \<lparr>url = ''https://myaweb.acc.jlab.org/'', tz = tz_new_york,
           deployment = None, throttle = None,
           Sampler_url = ''https://myaweb.acc.jlab.org/'' @ ''mySampler/data'',
           Sampler_deployment = ''history''\<rparr>"

text \<open>
  \<open>initialize_modules\<close> of \<open>ced2graph.py\<close>, the part that writes to this module. Its
  argument is the \<open>mya\<close> section of the configuration, a dictionary.
\<close>

definition initialize_modules :: "(string \<rightharpoonup> scalar) \<Rightarrow> mya_module \<Rightarrow> mya_module" where
  "initialize_modules config_mya M =
     (let M1 = (case config_mya ''deployment'' of
                  Some v \<Rightarrow> M\<lparr>deployment := Some v\<rparr> | None \<Rightarrow> M)
      in case config_mya ''throttle'' of
           Some v \<Rightarrow> M1\<lparr>throttle := Some v\<rparr> | None \<Rightarrow> M1)"

subsection \<open>The class \<open>Sampler\<close>\<close>

record 'r sampler =
  pv_list :: "string list"
  data_attr :: "'r pyval"
  begin_date :: timestamp
  end_date :: timestamp
  interval :: string


text \<open>
  \<open>steps_between\<close>. Both dates get the zone of the module, their difference is taken
  between the instants they stand for, and its absolute value is divided by the interval.
  The quotient is the exact one: the timestamps are whole seconds and the intervals whole
  nanoseconds, and the rounding of the binary quotient is left out.
\<close>

definition steps_between :: "mya_module \<Rightarrow> date_arg \<Rightarrow> date_arg \<Rightarrow> string \<Rightarrow> error + int" where
  "steps_between M bd ed iv =
     (case to_datetime bd of
        Inl x \<Rightarrow> Inl x
      | Inr b \<Rightarrow>
          (case to_datetime ed of
             Inl x \<Rightarrow> Inl x
           | Inr e \<Rightarrow>
               (let begin_datetime = aware (tz M) b;
                    end_datetime = aware (tz M) e;
                    time_difference = \<bar>end_datetime - begin_datetime\<bar>
                in case to_timedelta iv of
                     Inl x \<Rightarrow> Inl x
                   | Inr d \<Rightarrow>
                       if d = 0 then Inl ZeroDivisionError
                       else Inr \<lfloor>real_of_int time_difference / real_of_int d\<rfloor>)))"

definition number_of_steps :: "mya_module \<Rightarrow> 'r sampler \<Rightarrow> error + int" where
  "number_of_steps M S = steps_between M (Ts (begin_date S)) (Ts (end_date S)) (interval S)"

text \<open>\<open>strftime\<close> with \<open>%Y-%m-%d %X\<close>, for years of four digits.\<close>

definition digit_char :: "int \<Rightarrow> char" where
  "digit_char v = char_of (48 + nat (v mod 10))"

definition pad2 :: "int \<Rightarrow> string" where
  "pad2 v = [digit_char (v div 10), digit_char v]"

definition strftime :: "timestamp \<Rightarrow> string" where
  "strftime t =
     pad2 (year t div 100) @ pad2 (year t) @ ''-'' @ pad2 (month t) @ ''-'' @ pad2 (day t)
       @ '' '' @ pad2 (hour t) @ '':'' @ pad2 (minute t) @ '':'' @ pad2 (second t)"

fun join :: "string \<Rightarrow> string list \<Rightarrow> string" where
  "join sep [] = []"
| "join sep [x] = x"
| "join sep (x # y # ys) = x @ sep @ join sep (y # ys)"

text \<open>\<open>queryParams\<close>: the dictionary, in the order it is written.\<close>

definition queryParams :: "mya_module \<Rightarrow> 'r sampler \<Rightarrow> error + (string \<times> scalar) list" where
  "queryParams M S =
     (case number_of_steps M S of
        Inl x \<Rightarrow> Inl x
      | Inr k \<Rightarrow>
          Inr [(''b'', SStr (strftime (begin_date S))),
               (''s'', SStr (interval S)),
               (''n'', SInt k),
               (''m'', SStr ''ops''),
               (''channels'', SStr (join '' '' (pv_list S)))])"

text \<open>
  The archiver is the web service behind \<open>requests.get\<close>: from the address and the query
  it gives a reply, or the call raises. Of a reply the code reads the status and
  \<open>response.json()['data']\<close>, which raises when the body is not what it should be.
\<close>

record 'r response =
  status_code :: int
  json_data :: "error + 'r pyval"

type_synonym 'r archiver = "string \<Rightarrow> (string \<times> scalar) list \<Rightarrow> error + 'r response"

text \<open>
  \<open>data\<close>. The result is what the call returns or raises, the sampler afterwards, and
  the requests that the call sent to the archiver. The address printed before the error
  of a bad status is left out.
\<close>

definition data ::
    "mya_module \<Rightarrow> 'r archiver \<Rightarrow> 'r sampler
       \<Rightarrow> (error + 'r pyval) \<times> 'r sampler \<times> (string \<times> (string \<times> scalar) list) list" where
  "data M get S =
     (if \<not> truthy (data_attr S) then
        (if pv_list S = [] then (Inl (RuntimeError ''No channels to fetch''), S, [])
         else
           (case queryParams M S of
              Inl x \<Rightarrow> (Inl x, S, [])
            | Inr q \<Rightarrow>
                (case get (Sampler_url M) q of
                   Inl x \<Rightarrow> (Inl x, S, [(Sampler_url M, q)])
                 | Inr response \<Rightarrow>
                     if status_code response \<noteq> 200
                     then (Inl (RuntimeError ''Mya web server returned an error status code''),
                           S, [(Sampler_url M, q)])
                     else
                       (case json_data response of
                          Inl x \<Rightarrow> (Inl x, S, [(Sampler_url M, q)])
                        | Inr v \<Rightarrow>
                            (Inr v, S\<lparr>data_attr := v\<rparr>, [(Sampler_url M, q)])))))
      else (Inr (data_attr S), S, []))"

text \<open>\<open>set_data\<close>: what the call returns or raises, and the sampler afterwards.\<close>

definition set_data :: "'r sampler \<Rightarrow> 'r pyval \<Rightarrow> (error + unit) \<times> 'r sampler" where
  "set_data S val =
     (if \<not> is_list val then (Inl (TypeError ''Expected: list''), S)
      else (Inr (), S\<lparr>data_attr := val\<rparr>))"

text \<open>
  An archiver that answers a query for \<open>n\<close> steps with \<open>n\<close> samples, as in the reply that
  the source quotes above \<open>data\<close>: two samples for \<open>n=2\<close>.
\<close>

definition n_samples :: "'r \<Rightarrow> 'r archiver" where
  "n_samples r address q =
     (case map_of q ''n'' of
        Some (SInt k) \<Rightarrow> Inr \<lparr>status_code = 200, json_data = Inr (PyList (replicate (nat k) r))\<rparr>
      | _ \<Rightarrow> Inl (OtherError ''no step count''))"

section \<open>The entry scripts \<open>main.py\<close> and \<open>ced2graph.py\<close>\<close>

text \<open>
  The scripts build the node list out of \<open>node.List.make_node\<close> and \<open>pv_data\<close>, whose code
  (\<open>modules/node.py\<close>) is not among the source files: they are parameters. \<open>make_node\<close>
  returns a node, or nothing when no type rule matches the element, or raises; \<open>pv_data\<close>
  loads the samples into the node, or raises. \<open>'e\<close> is the type of an inventory element
  and \<open>'n\<close> that of a node without its \<open>node_id\<close>.
\<close>

record ('e, 'n) node_module =
  make_node :: "'e \<Rightarrow> error + 'n option"
  pv_data :: "'n \<Rightarrow> error + 'n"

record 'n node =
  node_id :: int
  body :: 'n

text \<open>
  What a run does that can be seen from outside: the lines it prints, and the calls of
  \<open>populate_links\<close>, of \<open>write_data_sets\<close> (with the node list it is given), of the graph
  loader, of the copy of the configuration file and of the JSON dump. \<open>populate_links\<close> and
  \<open>write_data_sets\<close> work on the list in place and are taken to return.
\<close>

datatype 'n event =
    Print string
  | PopulateLinks
  | WriteDataSets "'n node list"
  | MakeGraphFiles
  | CopyConfig
  | SaveJson

fun is_write :: "'n event \<Rightarrow> bool" where
  "is_write (WriteDataSets nl) = True"
| "is_write ev = False"

datatype status = Exit int | Uncaught error

record 'n loop_state =
  node_list :: "'n node list"
  node_id_var :: int
  out :: "'n event list"

definition initial :: "'n loop_state" where
  "initial = \<lparr>node_list = [], node_id_var = 0, out = []\<rparr>"

text \<open>
  The handler of the loop, \<open>except mya.MyaException as err: print(err)\<close>: it prints the
  message and lets the loop go on; any other exception leaves the loop, with the state as
  it was.
\<close>

definition except_MyaException ::
    "'n loop_state \<Rightarrow> error \<Rightarrow> (error \<times> 'n loop_state) + 'n loop_state" where
  "except_MyaException s err =
     (case err of
        MyaException msg \<Rightarrow> Inr (s\<lparr>out := out s @ [Print msg]\<rparr>)
      | _ \<Rightarrow> Inl (err, s))"

text \<open>The body of the loop for one element.\<close>

definition visit ::
    "('e, 'n) node_module \<Rightarrow> 'n loop_state \<Rightarrow> 'e \<Rightarrow> (error \<times> 'n loop_state) + 'n loop_state" where
  "visit N s element =
     (case make_node N element of
        Inl err \<Rightarrow> except_MyaException s err
      | Inr None \<Rightarrow> Inr s
      | Inr (Some item) \<Rightarrow>
          (case pv_data N item of
             Inl err \<Rightarrow> except_MyaException s err
           | Inr item' \<Rightarrow>
               Inr (s\<lparr>node_list := node_list s @ [\<lparr>node_id = node_id_var s, body = item'\<rparr>],
                      node_id_var := node_id_var s + 1\<rparr>)))"

fun make_nodes ::
    "('e, 'n) node_module \<Rightarrow> 'n loop_state \<Rightarrow> 'e list \<Rightarrow> (error \<times> 'n loop_state) + 'n loop_state" where
  "make_nodes N s [] = Inr s"
| "make_nodes N s (element # elements) =
     (case visit N s element of
        Inl x \<Rightarrow> Inl x
      | Inr s' \<Rightarrow> make_nodes N s' elements)"

text \<open>
  The handlers that close both scripts: a JSON error and a \<open>RuntimeError\<close> are printed and
  end the run with status 1; any other exception is not caught.
\<close>

definition handlers :: "'n event list \<Rightarrow> error \<Rightarrow> 'n event list \<times> status" where
  "handlers tr err =
     (case err of
        JSONDecodeError msg \<Rightarrow>
          (tr @ [Print msg,
                 Print ''Oops!  Invalid JSON response. Check request parameters and try again.''],
           Exit 1)
      | RuntimeError msg \<Rightarrow> (tr @ [Print (''Exception: '' @ '' '' @ msg)], Exit 1)
      | _ \<Rightarrow> (tr, Uncaught err))"

text \<open>
  \<open>main.py\<close> from the choice between saved and fresh data to the end, with the
  configuration read and, on fresh data, the global data and the inventory fetched.
  \<open>read_json\<close> and \<open>save_json\<close> are the two flags, \<open>loaded\<close> is what reading the saved
  node list gives, \<open>elements\<close> is the inventory. The progress bar around the elements
  is left out.
\<close>

definition main_py_check ::
    "bool \<Rightarrow> 'n node list \<Rightarrow> 'n event list \<Rightarrow> 'n event list \<times> status" where
  "main_py_check save_json nl tr =
     (if length nl < 1
      then handlers tr (RuntimeError ''Empty node list.  Did you provide valid dates?'')
      else (tr @ [PopulateLinks, WriteDataSets nl] @ (if save_json then [SaveJson] else []),
            Exit 0))"

definition main_py ::
    "('e, 'n) node_module \<Rightarrow> bool \<Rightarrow> bool \<Rightarrow> error + 'n node list \<Rightarrow> 'e list
       \<Rightarrow> 'n event list \<times> status" where
  "main_py N read_json save_json loaded elements =
     (if read_json then
        (case loaded of
           Inl err \<Rightarrow> handlers [] err
         | Inr nl \<Rightarrow> main_py_check save_json nl [])
      else
        (case make_nodes N initial elements of
           Inl (err, s) \<Rightarrow> handlers (out s) err
         | Inr s \<Rightarrow>
             main_py_check save_json (node_list s)
               (out s @ [PopulateLinks, WriteDataSets (node_list s)])))"

text \<open>\<open>ced2graph.py\<close>, the same stretch.\<close>

definition ced2graph_py_check ::
    "bool \<Rightarrow> 'n node list \<Rightarrow> 'n event list \<Rightarrow> 'n event list \<times> status" where
  "ced2graph_py_check save_json nl tr =
     (if length nl < 1
      then handlers tr (RuntimeError ''Empty node list.  Did you provide valid dates?'')
      else (tr @ [PopulateLinks, WriteDataSets nl, MakeGraphFiles, CopyConfig]
               @ (if save_json then [SaveJson] else []),
            Exit 0))"

definition ced2graph_py ::
    "('e, 'n) node_module \<Rightarrow> bool \<Rightarrow> bool \<Rightarrow> error + 'n node list \<Rightarrow> 'e list
       \<Rightarrow> 'n event list \<times> status" where
  "ced2graph_py N read_json save_json loaded elements =
     (if read_json then
        (case loaded of
           Inl err \<Rightarrow> handlers [] err
         | Inr nl \<Rightarrow> ced2graph_py_check save_json nl [])
      else
        (case make_nodes N initial elements of
           Inl (err, s) \<Rightarrow> handlers (out s) err
         | Inr s \<Rightarrow> ced2graph_py_check save_json (node_list s) (out s @ [PopulateLinks])))"

text \<open>
  What the loop makes of one element when nothing is raised past it: the node with its
  samples, if a type rule matched and the samples were fetched.
\<close>

definition fetched :: "('e, 'n) node_module \<Rightarrow> 'e \<Rightarrow> 'n option" where
  "fetched N element =
     (case make_node N element of
        Inr (Some item) \<Rightarrow> (case pv_data N item of Inr item' \<Rightarrow> Some item' | Inl err \<Rightarrow> None)
      | _ \<Rightarrow> None)"


section \<open>Linking\<close>

text \<open>
  Modelled from the spec: \<open>node.List.populate_links\<close>, whose code (\<open>modules/node.py\<close>) is not
  among the source files; the scripts only call it. The list is scanned once with a
  current setpoint, none at first. A setpoint node closes the current setpoint, which
  gets it as the last member of its downstream collection, becomes the current setpoint
  and has its own downstream collection emptied; any other node is added to the
  downstream collection of the current setpoint, if there is one. Downstream collections
  hold positions in the list.
\<close>

datatype role = Setpoint | Observer

record 'a linked =
  role :: role
  downstream :: "nat list"
  element :: 'a

definition add_downstream :: "nat option \<Rightarrow> nat \<Rightarrow> 'a linked list \<Rightarrow> 'a linked list" where
  "add_downstream current i ns =
     (case current of
        None \<Rightarrow> ns
      | Some c \<Rightarrow> ns[c := (ns ! c)\<lparr>downstream := downstream (ns ! c) @ [i]\<rparr>])"

definition link_step ::
    "nat \<Rightarrow> nat option \<times> 'a linked list \<Rightarrow> nat option \<times> 'a linked list" where
  "link_step i st =
     (case st of (current, ns) \<Rightarrow>
        if role (ns ! i) = Setpoint
        then (Some i, (add_downstream current i ns)
                         [i := (add_downstream current i ns ! i)\<lparr>downstream := []\<rparr>])
        else (current, add_downstream current i ns))"

definition populate_links :: "'a linked list \<Rightarrow> 'a linked list" where
  "populate_links ns = snd (fold link_step [0..<length ns] (None, ns))"

text \<open>The edges of a linked list: a setpoint's position with each of its downstream members.\<close>

definition edges :: "'a linked list \<Rightarrow> (nat \<times> nat) list" where
  "edges ns =
     concat (map (\<lambda>i. if role (ns ! i) = Setpoint then map (Pair i) (downstream (ns ! i)) else [])
                 [0..<length ns])"

text \<open>
  The scan after its first \<open>k\<close> steps, and three relations for reasoning about it. Two
  lists are the \<open>same_nodes\<close> when they agree on everything but the downstream collections
  of their setpoints. Two states of the scan are \<open>scanned\<close> to \<open>k\<close> when they agree on the
  current setpoint and on everything but the downstream collections of the setpoints
  from position \<open>k\<close> on. A state has \<open>kept\<close> a list when it differs from it only in the
  downstream collections of setpoints.
\<close>

definition scan :: "nat \<Rightarrow> 'a linked list \<Rightarrow> nat option \<times> 'a linked list" where
  "scan k ns = fold link_step [0..<k] (None, ns)"

definition same_nodes :: "'a linked list \<Rightarrow> 'a linked list \<Rightarrow> bool" where
  "same_nodes ns ms =
     (length ns = length ms
      \<and> (\<forall>j<length ns. role (ns ! j) = role (ms ! j) \<and> element (ns ! j) = element (ms ! j)
            \<and> (role (ns ! j) \<noteq> Setpoint \<longrightarrow> downstream (ns ! j) = downstream (ms ! j))))"

definition scanned ::
    "nat \<Rightarrow> nat option \<times> 'a linked list \<Rightarrow> nat option \<times> 'a linked list \<Rightarrow> bool" where
  "scanned k st st' =
     (fst st = fst st' \<and> length (snd st) = length (snd st')
      \<and> (\<forall>c. fst st = Some c \<longrightarrow> c < k)
      \<and> (\<forall>j<length (snd st).
            role (snd st ! j) = role (snd st' ! j) \<and> element (snd st ! j) = element (snd st' ! j)
            \<and> (role (snd st ! j) \<noteq> Setpoint \<or> j < k
                 \<longrightarrow> downstream (snd st ! j) = downstream (snd st' ! j))))"

definition kept :: "nat \<Rightarrow> 'a linked list \<Rightarrow> nat option \<times> 'a linked list \<Rightarrow> bool" where
  "kept k ns st =
     (length (snd st) = length ns
      \<and> (\<forall>c. fst st = Some c \<longrightarrow> c < k \<and> role (ns ! c) = Setpoint)
      \<and> (\<forall>j<length ns. role (snd st ! j) = role (ns ! j) \<and> element (snd st ! j) = element (ns ! j)
            \<and> (role (ns ! j) \<noteq> Setpoint \<longrightarrow> downstream (snd st ! j) = downstream (ns ! j))))"

section \<open>Example inputs\<close>

text \<open>
  The window of the example in the source, two hours in steps of one hour on two
  channels, and a window of half an hour in steps of one hour on one channel.
\<close>

definition S_two_hours :: "unit sampler" where
  "S_two_hours =
     \<lparr>pv_list = [''MQB0L09.BDL'', ''MQB0L10.BDL''], data_attr = PyNone,
      begin_date = \<lparr>year = 2021, month = 11, day = 10, hour = 0, minute = 0, second = 0\<rparr>,
      end_date = \<lparr>year = 2021, month = 11, day = 10, hour = 2, minute = 0, second = 0\<rparr>,
      interval = ''1h''\<rparr>"

definition S_half_hour :: "unit sampler" where
  "S_half_hour =
     \<lparr>pv_list = [''MQB0L09.BDL''], data_attr = PyNone,
      begin_date = \<lparr>year = 2021, month = 11, day = 10, hour = 0, minute = 0, second = 0\<rparr>,
      end_date = \<lparr>year = 2021, month = 11, day = 10, hour = 0, minute = 30, second = 0\<rparr>,
      interval = ''1h''\<rparr>"

definition q_half_hour :: "(string \<times> scalar) list" where
  "q_half_hour =
     [(''b'', SStr ''2021-11-10 00:00:00''), (''s'', SStr ''1h''), (''n'', SInt 0),
      (''m'', SStr ''ops''), (''channels'', SStr ''MQB0L09.BDL'')]"

text \<open>
  A node module over element names: no type rule matches the element \<open>Other\<close>, and the
  archiver fails on the samples of \<open>Broken\<close> with the error of its own class.
\<close>

definition example_nodes :: "(string, string) node_module" where
  "example_nodes =
     \<lparr>make_node = (\<lambda>element. if element = ''Other'' then Inr None else Inr (Some element)),
      pv_data = (\<lambda>item. if item = ''Broken'' then Inl (MyaException ''No data for Broken'')
                         else Inr item)\<rparr>"

text \<open>The roles of the example in the specification: observer, setpoint, two observers,
  setpoint, observer.\<close>

definition example_roles :: "unit linked list" where
  "example_roles =
     map (\<lambda>r. \<lparr>role = r, downstream = [], element = ()\<rparr>)
       [Observer, Setpoint, Observer, Observer, Setpoint, Observer]"

section \<open>Properties of the sampler\<close>




text \<open>
  C8. For two dates that are read as timestamps and any interval, \<open>steps_between\<close> gives
  the same result, or raises the same error, when the two dates change places.
\<close>

theorem steps_between_symmetric:
  assumes "to_datetime bd = Inr b" and "to_datetime ed = Inr e"
  shows "steps_between M bd ed iv = steps_between M ed bd iv"
proof -
  have "\<bar>aware (tz M) e - aware (tz M) b\<bar> = \<bar>aware (tz M) b - aware (tz M) e\<bar>"
    by (rule abs_minus_commute)
  with assms show ?thesis
    by (simp add: steps_between_def split: sum.splits)
qed

theorem steps_between_symmetric_witness:
  "to_datetime (Str ''2021-11-10 00:00:00'')
      = Inr \<lparr>year = 2021, month = 11, day = 10, hour = 0, minute = 0, second = 0\<rparr>
   \<and> to_datetime (Str ''2021-11-10 02:00:00'')
      = Inr \<lparr>year = 2021, month = 11, day = 10, hour = 2, minute = 0, second = 0\<rparr>
   \<and> steps_between mya (Str ''2021-11-10 02:00:00'') (Str ''2021-11-10 00:00:00'') ''1h''
      = steps_between mya (Str ''2021-11-10 00:00:00'') (Str ''2021-11-10 02:00:00'') ''1h''"
proof -
  have h1: "to_datetime (Str ''2021-11-10 00:00:00'')
      = Inr \<lparr>year = 2021, month = 11, day = 10, hour = 0, minute = 0, second = 0\<rparr>" by code_simp
  have h2: "to_datetime (Str ''2021-11-10 02:00:00'')
      = Inr \<lparr>year = 2021, month = 11, day = 10, hour = 2, minute = 0, second = 0\<rparr>" by code_simp
  from steps_between_symmetric [OF h2 h1, of mya "''1h''"] h1 h2 show ?thesis by simp
qed

lemma queryParams_tz: "tz M = tz M' \<Longrightarrow> queryParams M S = queryParams M' S"
  by (simp add: queryParams_def number_of_steps_def steps_between_def)

lemma tz_initialize_modules: "tz (initialize_modules c M) = tz M"
  by (simp add: initialize_modules_def Let_def split: option.splits)

text \<open>
  C9. The query of a sampler holds \<open>ops\<close> under the key \<open>m\<close> whenever it is built, and it
  is the same query whatever the configuration says about the deployment and whatever the
  deployment attributes of the module and of the class hold.
\<close>

theorem queryParams_deployment:
  "queryParams (initialize_modules (c(''deployment'' := v)) M) S
      = queryParams (initialize_modules (c(''deployment'' := w)) M) S
   \<and> queryParams (M\<lparr>deployment := d, Sampler_deployment := d'\<rparr>) S = queryParams M S
   \<and> (queryParams M S = Inr q \<longrightarrow> map_of q ''m'' = Some (SStr ''ops''))"
proof (intro conjI impI)
  show "queryParams (initialize_modules (c(''deployment'' := v)) M) S
      = queryParams (initialize_modules (c(''deployment'' := w)) M) S"
    by (rule queryParams_tz) (simp add: tz_initialize_modules)
  show "queryParams (M\<lparr>deployment := d, Sampler_deployment := d'\<rparr>) S = queryParams M S"
    by (rule queryParams_tz) simp
  assume "queryParams M S = Inr q"
  then show "map_of q ''m'' = Some (SStr ''ops'')"
    by (auto simp: queryParams_def split: sum.splits)
qed

theorem queryParams_deployment_witness:
  "queryParams mya S_two_hours
      = Inr [(''b'', SStr ''2021-11-10 00:00:00''), (''s'', SStr ''1h''), (''n'', SInt 2),
             (''m'', SStr ''ops''), (''channels'', SStr ''MQB0L09.BDL MQB0L10.BDL'')]
   \<and> map_of [(''b'', SStr ''2021-11-10 00:00:00''), (''s'', SStr ''1h''), (''n'', SInt 2),
             (''m'', SStr ''ops''), (''channels'', SStr ''MQB0L09.BDL MQB0L10.BDL'')] ''m''
      = Some (SStr ''ops'')"
proof -
  have h: "queryParams mya S_two_hours
      = Inr [(''b'', SStr ''2021-11-10 00:00:00''), (''s'', SStr ''1h''), (''n'', SInt 2),
             (''m'', SStr ''ops''), (''channels'', SStr ''MQB0L09.BDL MQB0L10.BDL'')]"
    by code_simp
  from queryParams_deployment [where M = mya and S = S_two_hours and q =
      "[(''b'', SStr ''2021-11-10 00:00:00''), (''s'', SStr ''1h''), (''n'', SInt 2),
             (''m'', SStr ''ops''), (''channels'', SStr ''MQB0L09.BDL MQB0L10.BDL'')]"] h
  show ?thesis by blast
qed

subsection \<open>The stored data\<close>

lemma data_cached:
  "truthy (data_attr S) \<Longrightarrow> data M get S = (Inr (data_attr S), S, [])"
  by (simp add: data_def)

lemma data_stores:
  "data M get S = (Inr v, S', rs) \<Longrightarrow> data_attr S' = v"
  by (auto simp: data_def split: if_splits sum.splits)

text \<open>
  Once \<open>data\<close> has returned a list that is not empty, every later call returns that list
  and sends nothing to the archiver; the same holds after \<open>set_data\<close> with such a list.
  \<open>set_data\<close> with anything but a list raises \<open>TypeError\<close> and leaves the sampler as it was.
\<close>

lemma data_twice_nonempty:
  assumes "data M get S = (Inr (PyList (x # xs)), S', rs)"
  shows "data M get' S' = (Inr (PyList (x # xs)), S', [])"
proof -
  from assms have "data_attr S' = PyList (x # xs)" by (rule data_stores)
  then show ?thesis by (simp add: data_cached)
qed

lemma set_data_then_data_nonempty:
  "set_data S (PyList (x # xs)) = (Inr (), S\<lparr>data_attr := PyList (x # xs)\<rparr>)
   \<and> data M get (S\<lparr>data_attr := PyList (x # xs)\<rparr>)
        = (Inr (PyList (x # xs)), S\<lparr>data_attr := PyList (x # xs)\<rparr>, [])"
  by (simp add: set_data_def data_cached)

lemma set_data_not_list:
  "\<not> is_list val \<Longrightarrow> set_data S val = (Inl (TypeError ''Expected: list''), S)"
  by (simp add: set_data_def)

text \<open>
  C10. The claim that after \<open>set_data\<close> with a list, or after one successful \<open>data\<close>, every
  later \<open>data\<close> returns the stored list without another fetch, fails for the empty list.
  After \<open>set_data\<close> with the empty list, \<open>data\<close> sends a request to the archiver when the
  sampler has channels, and raises \<open>RuntimeError\<close> when it has none.
\<close>

theorem data_fetches_again_after_empty_list:
  "set_data S_half_hour (PyList []) = (Inr (), S_half_hour\<lparr>data_attr := PyList []\<rparr>)
   \<and> data mya (n_samples ()) (S_half_hour\<lparr>data_attr := PyList []\<rparr>)
        = (Inr (PyList []), S_half_hour\<lparr>data_attr := PyList []\<rparr>,
           [(''https://myaweb.acc.jlab.org/mySampler/data'', q_half_hour)])
   \<and> data mya (n_samples ()) (S_half_hour\<lparr>data_attr := PyList [], pv_list := []\<rparr>)
        = (Inl (RuntimeError ''No channels to fetch''),
           S_half_hour\<lparr>data_attr := PyList [], pv_list := []\<rparr>, [])"
  by code_simp

subsection \<open>Windows of no step\<close>





section \<open>Properties of the construction loop and of the runs\<close>










subsection \<open>The numbering of the nodes\<close>

lemma visit_cases:
  assumes "visit N s e = Inr s'"
  shows "(fetched N e = None \<and> node_list s' = node_list s \<and> node_id_var s' = node_id_var s)
         \<or> (\<exists>b. fetched N e = Some b
               \<and> node_list s' = node_list s @ [\<lparr>node_id = node_id_var s, body = b\<rparr>]
               \<and> node_id_var s' = node_id_var s + 1)"
  using assms
  by (auto simp: visit_def fetched_def except_MyaException_def
      split: sum.splits option.splits error.splits)

lemma map_upt_shift:
  "map (\<lambda>i. c + int i) [0..<Suc n] = c # map (\<lambda>i. (c + 1) + int i) [0..<n]"
proof -
  have "[0..<Suc n] = 0 # map Suc [0..<n]"
    by (simp add: upt_conv_Cons map_Suc_upt del: upt_Suc)
  then show ?thesis by (simp add: o_def add.assoc del: upt_Suc)
qed

lemma make_nodes_lists:
  assumes "make_nodes N s es = Inr s'"
  shows "map body (node_list s') = map body (node_list s) @ List.map_filter (fetched N) es
         \<and> map node_id (node_list s')
             = map node_id (node_list s)
                 @ map (\<lambda>i. node_id_var s + int i) [0..<length (List.map_filter (fetched N) es)]
         \<and> node_id_var s' = node_id_var s + int (length (List.map_filter (fetched N) es))"
  using assms
proof (induction es arbitrary: s)
  case Nil
  then show ?case by (simp add: List.map_filter_simps)
next
  case (Cons e es)
  from Cons.prems obtain s1 where v: "visit N s e = Inr s1" and r: "make_nodes N s1 es = Inr s'"
    by (auto split: sum.splits)
  note ih = Cons.IH [OF r]
  from visit_cases [OF v] show ?case
  proof (elim disjE exE conjE)
    assume "fetched N e = None" "node_list s1 = node_list s" "node_id_var s1 = node_id_var s"
    with ih show ?thesis by (simp add: List.map_filter_simps)
  next
    fix b
    assume f: "fetched N e = Some b"
      and nl: "node_list s1 = node_list s @ [\<lparr>node_id = node_id_var s, body = b\<rparr>]"
      and c: "node_id_var s1 = node_id_var s + 1"
    from ih f nl c show ?thesis
      by (simp add: List.map_filter_simps map_upt_shift del: upt_Suc)
  qed
qed

text \<open>
  C3. When the loop has gone through all elements, the \<open>node_id\<close>s of the node list are
  0, 1, 2 and so on in the order of the list, the nodes are those of the elements for
  which a type rule matched and the samples were fetched, in the order of the elements,
  and the next \<open>node_id\<close> is their number.
\<close>

theorem node_ids_contiguous:
  assumes "make_nodes N initial elements = Inr s"
  shows "map node_id (node_list s) = map int [0..<length (node_list s)]
         \<and> map body (node_list s) = List.map_filter (fetched N) elements
         \<and> length (node_list s) = length (filter (\<lambda>e. fetched N e \<noteq> None) elements)
         \<and> node_id_var s = int (length (node_list s))"
proof -
  from make_nodes_lists [OF assms]
  have b: "map body (node_list s) = List.map_filter (fetched N) elements"
    and i: "map node_id (node_list s)
              = map int [0..<length (List.map_filter (fetched N) elements)]"
    and c: "node_id_var s = int (length (List.map_filter (fetched N) elements))"
    by (simp_all add: initial_def)
  from b have l: "length (node_list s) = length (List.map_filter (fetched N) elements)"
    by (metis length_map)
  have "length (List.map_filter (fetched N) elements)
          = length (filter (\<lambda>e. fetched N e \<noteq> None) elements)"
    by (simp add: List.map_filter_def)
  with b i c l show ?thesis by simp
qed

theorem node_ids_contiguous_witness:
  "make_nodes example_nodes initial [''A'', ''Other'', ''Broken'', ''B'']
     = Inr \<lparr>node_list = [\<lparr>node_id = 0, body = ''A''\<rparr>, \<lparr>node_id = 1, body = ''B''\<rparr>],
            node_id_var = 2, out = [Print ''No data for Broken'']\<rparr>
   \<and> map node_id [\<lparr>node_id = 0, body = ''A''\<rparr>, \<lparr>node_id = 1, body = ''B''\<rparr>] = map int [0..<2]
   \<and> List.map_filter (fetched example_nodes) [''A'', ''Other'', ''Broken'', ''B''] = [''A'', ''B'']"
proof -
  let ?s = "\<lparr>node_list = [\<lparr>node_id = 0, body = ''A''\<rparr>, \<lparr>node_id = 1, body = ''B''\<rparr>],
            node_id_var = 2, out = [Print ''No data for Broken'']\<rparr> :: string loop_state"
  have h: "make_nodes example_nodes initial [''A'', ''Other'', ''Broken'', ''B''] = Inr ?s"
    by code_simp
  have m: "map node_id [\<lparr>node_id = 0, body = ''A''\<rparr>, \<lparr>node_id = 1, body = ''B''\<rparr>]
             = map int [0..<2]" by code_simp
  from node_ids_contiguous [OF h]
  have "List.map_filter (fetched example_nodes) [''A'', ''Other'', ''Broken'', ''B''] = [''A'', ''B'']"
    by simp
  with h m show ?thesis by simp
qed

subsection \<open>The empty node list\<close>

text \<open>
  C2. The claim that a run with an empty node list ends before \<open>write_data_sets\<close> is
  called fails for \<open>main.py\<close> on fresh data: with no element, or with elements none of
  which gives a node, it calls \<open>populate_links\<close> and \<open>write_data_sets\<close> on the empty list
  and only then raises the error of the empty list.
\<close>

theorem main_py_writes_before_check:
  "main_py N False save_json loaded []
     = ([PopulateLinks, WriteDataSets [],
         Print ''Exception:  Empty node list.  Did you provide valid dates?''], Exit 1)
   \<and> main_py example_nodes False False (Inr []) [''Other'', ''Broken'']
     = ([Print ''No data for Broken'', PopulateLinks, WriteDataSets [],
         Print ''Exception:  Empty node list.  Did you provide valid dates?''], Exit 1)"
proof
  show "main_py N False save_json loaded []
     = ([PopulateLinks, WriteDataSets [],
         Print ''Exception:  Empty node list.  Did you provide valid dates?''], Exit 1)"
    by (simp add: main_py_def main_py_check_def initial_def handlers_def)
  show "main_py example_nodes False False (Inr []) [''Other'', ''Broken'']
     = ([Print ''No data for Broken'', PopulateLinks, WriteDataSets [],
         Print ''Exception:  Empty node list.  Did you provide valid dates?''], Exit 1)"
    by code_simp
qed

text \<open>
  \<open>ced2graph.py\<close> makes the test first: no run of it that ends otherwise than with status
  0 has called \<open>write_data_sets\<close>.
\<close>

lemma out_visit: "visit N s e = Inr s' \<Longrightarrow> list_all (\<lambda>ev. \<not> is_write ev) (out s) \<Longrightarrow> list_all (\<lambda>ev. \<not> is_write ev) (out s')"
  by (auto simp: visit_def except_MyaException_def split: sum.splits option.splits error.splits)

lemma out_visit_err: "visit N s e = Inl (err, s') \<Longrightarrow> s' = s"
  by (auto simp: visit_def except_MyaException_def split: sum.splits option.splits error.splits)

lemma out_make_nodes:
  "list_all (\<lambda>ev. \<not> is_write ev) (out s) \<Longrightarrow>
     (case make_nodes N s es of Inl (err, s') \<Rightarrow> list_all (\<lambda>ev. \<not> is_write ev) (out s')
      | Inr s' \<Rightarrow> list_all (\<lambda>ev. \<not> is_write ev) (out s'))"
proof (induction es arbitrary: s)
  case Nil
  then show ?case by simp
next
  case (Cons e es)
  show ?case
  proof (cases "visit N s e")
    case (Inl x)
    obtain err s1 where x: "x = (err, s1)" by (cases x)
    with Inl have "s1 = s" by (simp add: out_visit_err)
    with Inl x Cons.prems show ?thesis by simp
  next
    case (Inr s1)
    with Cons.prems have "list_all (\<lambda>ev. \<not> is_write ev) (out s1)" by (simp add: out_visit)
    from Cons.IH [OF this] Inr show ?thesis by simp
  qed
qed

lemma ced2graph_checks_first:
  fixes N :: "('e, 'n) node_module"
  assumes "ced2graph_py N read_json save_json loaded elements = (tr, st)"
    and "st \<noteq> Exit 0"
  shows "list_all (\<lambda>ev. \<not> is_write ev) tr"
proof (cases read_json)
  case True
  with assms show ?thesis
    by (auto simp: ced2graph_py_def ced2graph_py_check_def handlers_def
        split: sum.splits if_splits error.splits)
next
  case False
  have i: "list_all (\<lambda>ev. \<not> is_write ev) (out (initial :: 'n loop_state))" by (simp add: initial_def)
  from out_make_nodes [OF i, of N elements] False assms show ?thesis
    by (auto simp: ced2graph_py_def ced2graph_py_check_def handlers_def
        split: sum.splits if_splits error.splits prod.splits)
qed

section \<open>Properties of linking\<close>

lemma scan_0: "scan 0 ns = (None, ns)"
  by (simp add: scan_def)

lemma scan_Suc: "scan (Suc k) ns = link_step k (scan k ns)"
  by (simp add: scan_def)

lemma populate_links_scan: "populate_links ns = snd (scan (length ns) ns)"
  by (simp add: populate_links_def scan_def)

lemma length_add_downstream: "length (add_downstream cur i ns) = length ns"
  by (simp add: add_downstream_def split: option.splits)

lemma nth_update_at:
  "j < length ns \<Longrightarrow> ns[c := x] ! j = (if c = j then x else ns ! j)"
  by (cases "c = j") simp_all

lemma role_add_downstream:
  "j < length ns \<Longrightarrow> role (add_downstream cur i ns ! j) = role (ns ! j)"
  by (simp add: add_downstream_def nth_update_at split: option.splits)

lemma element_add_downstream:
  "j < length ns \<Longrightarrow> element (add_downstream cur i ns ! j) = element (ns ! j)"
  by (simp add: add_downstream_def nth_update_at split: option.splits)

lemma downstream_add_downstream:
  "j < length ns \<Longrightarrow>
     downstream (add_downstream cur i ns ! j)
       = (if cur = Some j then downstream (ns ! j) @ [i] else downstream (ns ! j))"
  by (auto simp: add_downstream_def nth_update_at split: option.splits)

lemma length_link_step: "length (snd (link_step i st)) = length (snd st)"
  by (cases st) (simp add: link_step_def length_add_downstream)

lemma role_link_step:
  "j < length (snd st) \<Longrightarrow> role (snd (link_step i st) ! j) = role (snd st ! j)"
  by (cases st)
     (simp add: link_step_def length_add_downstream role_add_downstream nth_update_at)

lemma element_link_step:
  "j < length (snd st) \<Longrightarrow> element (snd (link_step i st) ! j) = element (snd st ! j)"
  by (cases st)
     (simp add: link_step_def length_add_downstream element_add_downstream nth_update_at)

lemma fst_link_step:
  "fst (link_step i st) = (if role (snd st ! i) = Setpoint then Some i else fst st)"
  by (cases st) (simp add: link_step_def)

lemma downstream_link_step:
  "j < length (snd st) \<Longrightarrow>
     downstream (snd (link_step i st) ! j)
       = (if role (snd st ! i) = Setpoint \<and> j = i then []
          else if fst st = Some j then downstream (snd st ! j) @ [i]
          else downstream (snd st ! j))"
  by (cases st)
     (simp add: link_step_def length_add_downstream downstream_add_downstream nth_update_at)

lemma scanned_step:
  assumes "scanned k st st'" and "k < length (snd st)"
  shows "scanned (Suc k) (link_step k st) (link_step k st')"
proof -
  from assms have len: "length (snd st) = length (snd st')" and cur: "fst st = fst st'"
    and kr: "role (snd st ! k) = role (snd st' ! k)"
    by (simp_all add: scanned_def)
  show ?thesis
    unfolding scanned_def
  proof (intro conjI allI impI)
    show "fst (link_step k st) = fst (link_step k st')"
      by (simp add: fst_link_step cur kr)
    show "length (snd (link_step k st)) = length (snd (link_step k st'))"
      by (simp add: length_link_step len)
  next
    fix c assume c: "fst (link_step k st) = Some c"
    from assms(1) have "\<And>c. fst st = Some c \<Longrightarrow> c < k" by (simp add: scanned_def)
    with c show "c < Suc k"
      by (cases "role (snd st ! k) = Setpoint") (auto simp: fst_link_step less_Suc_eq)
  next
    fix j assume "j < length (snd (link_step k st))"
    then have j: "j < length (snd st)" "j < length (snd st')"
      by (simp_all add: length_link_step len)
    from assms(1) j
    have r: "role (snd st ! j) = role (snd st' ! j)"
      and e: "element (snd st ! j) = element (snd st' ! j)"
      and d: "role (snd st ! j) \<noteq> Setpoint \<or> j < k
                \<Longrightarrow> downstream (snd st ! j) = downstream (snd st' ! j)"
      and c: "\<And>c. fst st = Some c \<Longrightarrow> c < k"
      by (simp_all add: scanned_def)
    show "role (snd (link_step k st) ! j) = role (snd (link_step k st') ! j)"
      using j r by (simp add: role_link_step)
    show "element (snd (link_step k st) ! j) = element (snd (link_step k st') ! j)"
      using j e by (simp add: element_link_step)
    assume "role (snd (link_step k st) ! j) \<noteq> Setpoint \<or> j < Suc k"
    then have h: "role (snd st ! j) \<noteq> Setpoint \<or> j < k \<or> j = k"
      using j by (auto simp: role_link_step)
    show "downstream (snd (link_step k st) ! j) = downstream (snd (link_step k st') ! j)"
    proof (cases "role (snd st ! k) = Setpoint \<and> j = k")
      case True
      with j kr show ?thesis by (simp add: downstream_link_step)
    next
      case False
      with h have "role (snd st ! j) \<noteq> Setpoint \<or> j < k" by auto
      then have "downstream (snd st ! j) = downstream (snd st' ! j)" by (rule d)
      with j kr cur False show ?thesis by (auto simp: downstream_link_step)
    qed
  qed
qed

lemma scanned_scan:
  assumes "same_nodes ns ms" and "k \<le> length ns"
  shows "scanned k (scan k ns) (scan k ms)"
  using assms(2)
proof (induction k)
  case 0
  from assms(1) show ?case by (auto simp: scan_0 scanned_def same_nodes_def)
next
  case (Suc k)
  then have ih: "scanned k (scan k ns) (scan k ms)" by simp
  have "length (snd (scan k ns)) = length ns"
    by (induction k) (simp_all add: scan_0 scan_Suc length_link_step)
  with Suc.prems have "k < length (snd (scan k ns))" by simp
  with ih show ?case by (simp add: scan_Suc scanned_step)
qed

lemma length_scan: "length (snd (scan k ns)) = length ns"
  by (induction k) (simp_all add: scan_0 scan_Suc length_link_step)

lemma same_nodes_populate_links:
  assumes "same_nodes ns ms"
  shows "populate_links ns = populate_links ms"
proof -
  from assms have len: "length ns = length ms" by (simp add: same_nodes_def)
  from scanned_scan [OF assms order_refl]
  have s: "scanned (length ns) (scan (length ns) ns) (scan (length ns) ms)" .
  have "snd (scan (length ns) ns) = snd (scan (length ns) ms)"
  proof (rule nth_equalityI)
    show "length (snd (scan (length ns) ns)) = length (snd (scan (length ns) ms))"
      by (simp add: length_scan len)
    fix j assume "j < length (snd (scan (length ns) ns))"
    then have j: "j < length ns" by (simp add: length_scan)
    with s have "role (snd (scan (length ns) ns) ! j) = role (snd (scan (length ns) ms) ! j)"
      and "element (snd (scan (length ns) ns) ! j) = element (snd (scan (length ns) ms) ! j)"
      and "downstream (snd (scan (length ns) ns) ! j) = downstream (snd (scan (length ns) ms) ! j)"
      unfolding scanned_def length_scan by blast+
    then show "snd (scan (length ns) ns) ! j = snd (scan (length ns) ms) ! j"
      by (simp add: linked.equality)
  qed
  with len show ?thesis by (simp add: populate_links_scan)
qed

lemma kept_step:
  assumes "kept k ns st" and "k < length ns"
  shows "kept (Suc k) ns (link_step k st)"
proof -
  from assms have len: "length (snd st) = length ns" by (simp add: kept_def)
  from assms have kr: "role (snd st ! k) = role (ns ! k)" by (simp add: kept_def)
  show ?thesis
    unfolding kept_def
  proof (intro conjI allI impI)
    show "length (snd (link_step k st)) = length ns" by (simp add: length_link_step len)
  next
    fix c assume c: "fst (link_step k st) = Some c"
    with assms(1) kr show "c < Suc k"
      by (auto simp: fst_link_step kept_def split: if_splits)
    from c assms(1) kr show "role (ns ! c) = Setpoint"
      by (auto simp: fst_link_step kept_def split: if_splits)
  next
    fix j assume j: "j < length ns"
    with assms(1) len show "role (snd (link_step k st) ! j) = role (ns ! j)"
      by (simp add: role_link_step kept_def)
    from j assms(1) len show "element (snd (link_step k st) ! j) = element (ns ! j)"
      by (simp add: element_link_step kept_def)
    assume o: "role (ns ! j) \<noteq> Setpoint"
    with assms(1) have nc: "fst st \<noteq> Some j" by (auto simp: kept_def)
    from o j assms(1) have d: "downstream (snd st ! j) = downstream (ns ! j)"
      by (simp add: kept_def)
    from o kr have "\<not> (role (snd st ! k) = Setpoint \<and> j = k)" by auto
    with j len nc d show "downstream (snd (link_step k st) ! j) = downstream (ns ! j)"
      by (auto simp: downstream_link_step)
  qed
qed

lemma kept_scan: "k \<le> length ns \<Longrightarrow> kept k ns (scan k ns)"
proof (induction k)
  case 0
  show ?case by (simp add: scan_0 kept_def)
next
  case (Suc k)
  then show ?case by (simp add: scan_Suc kept_step)
qed

lemma same_nodes_after: "same_nodes (populate_links ns) ns"
  using kept_scan [of "length ns" ns]
  by (simp add: same_nodes_def kept_def populate_links_scan)

text \<open>
  C5. Linking a list that is already linked gives the same list, and so the same edges:
  the downstream collection of every setpoint is emptied when the scan reaches it. On
  the roles observer, setpoint, observer, observer, setpoint, observer the edges go from
  the first setpoint to the two observers after it and to the second setpoint, and from
  the second setpoint to the last observer.
\<close>

theorem populate_links_idempotent:
  "populate_links (populate_links ns) = populate_links ns
   \<and> edges (populate_links (populate_links ns)) = edges (populate_links ns)
   \<and> edges (populate_links example_roles) = [(1, 2), (1, 3), (1, 4), (4, 5)]"
proof -
  have "populate_links (populate_links ns) = populate_links ns"
    by (rule same_nodes_populate_links) (rule same_nodes_after)
  moreover have "edges (populate_links example_roles) = [(1, 2), (1, 3), (1, 4), (4, 5)]"
    by code_simp
  ultimately show ?thesis by simp
qed

end
